theory Spec2Isabelle
  imports Main "HOL-Library.AList" "HOL-Library.Sublist"
begin

section \<open>The gateway of mcp2rest: data model\<close>

text \<open>
  The embedding follows \<^verbatim>\<open>src/gateway/Gateway.ts\<close> and \<^verbatim>\<open>src/types/index.ts\<close>.
  A thrown \<^verbatim>\<open>Error\<close> is its message (a string): the source builds every error as
  \<^verbatim>\<open>new Error(`${code}: ...`)\<close> and classifies caught errors by looking into the
  message, so the message is all an error carries. An operation returns
  \<open>Inl message\<close> where the source throws and \<open>Inr value\<close> where it returns.
  Console output is not modelled. Calls to collaborators (timers, the MCP client, the
  spawned process, the configuration manager) are recorded, in program order, in a list
  of events; what a collaborator answers is an argument of the operation.
\<close>

type_synonym json = string
type_synonym Date = nat
type_synonym Client = nat

datatype ErrorCode =
    SERVER_NOT_FOUND
  | SERVER_DISCONNECTED
  | SERVER_ADD_FAILED
  | SERVER_ALREADY_EXISTS
  | TOOL_NOT_FOUND
  | TOOL_EXECUTION_ERROR
  | TOOL_TIMEOUT
  | INVALID_ARGUMENTS
  | INVALID_CONFIG
  | GATEWAY_ERROR
  | DAEMON_NOT_RUNNING

text \<open>The string value of each member of the enum, as a template literal prints it.\<close>

fun code_str :: "ErrorCode \<Rightarrow> string" where
  "code_str SERVER_NOT_FOUND = ''SERVER_NOT_FOUND''"
| "code_str SERVER_DISCONNECTED = ''SERVER_DISCONNECTED''"
| "code_str SERVER_ADD_FAILED = ''SERVER_ADD_FAILED''"
| "code_str SERVER_ALREADY_EXISTS = ''SERVER_ALREADY_EXISTS''"
| "code_str TOOL_NOT_FOUND = ''TOOL_NOT_FOUND''"
| "code_str TOOL_EXECUTION_ERROR = ''TOOL_EXECUTION_ERROR''"
| "code_str TOOL_TIMEOUT = ''TOOL_TIMEOUT''"
| "code_str INVALID_ARGUMENTS = ''INVALID_ARGUMENTS''"
| "code_str INVALID_CONFIG = ''INVALID_CONFIG''"
| "code_str GATEWAY_ERROR = ''GATEWAY_ERROR''"
| "code_str DAEMON_NOT_RUNNING = ''DAEMON_NOT_RUNNING''"

record ServerConfig =
  name :: string
  package :: string
  args :: "string list option"

record Tool =
  tool_name :: string
  description :: "string option"
  inputSchema :: json

datatype Status = Connected | Disconnected | Error | Reconnecting

record ServerState =
  config :: ServerConfig
  status :: Status
  client :: "Client option"
  tools :: "Tool list"
  reconnectAttempts :: nat
  lastError :: "string option"
  lastConnected :: "Date option"

datatype LogLevel = Debug | Info | Warn | LogError

record GatewaySettings =
  port :: int
  host :: string
  timeout :: "int option"
  logLevel :: LogLevel

record GatewayConfig =
  cfg_servers :: "(string \<times> ServerConfig) list"
  gateway :: GatewaySettings

record ServerInfo =
  info_name :: string
  info_package :: string
  info_status :: Status
  toolCount :: nat
  info_error :: "string option"
  info_lastConnected :: "string option"

text \<open>
  The configuration manager, \<^verbatim>\<open>src/config/ConfigManager.ts\<close>, is not among the sources.
  Its state is the persisted configuration, a mapping from names to backend specs, and
  whether a call to it succeeds is the collaborator's answer.
\<close>

record ConfigManager =
  persisted :: "string \<rightharpoonup> ServerConfig"

datatype persist_outcome = PersistOk | PersistFails string

text \<open>
  Modelled from the spec: \<^verbatim>\<open>ConfigManager.addServer\<close>, which is missing. Section 6 of the
  specification: \<^verbatim>\<open>persistAdd(spec)\<close> either fully succeeds or fails without a partial
  write.
\<close>

definition cm_addServer ::
  "persist_outcome \<Rightarrow> string \<Rightarrow> ServerConfig \<Rightarrow> ConfigManager \<Rightarrow> string + ConfigManager" where
  "cm_addServer out n sc cm =
     (case out of
        PersistFails msg \<Rightarrow> Inl msg
      | PersistOk \<Rightarrow> Inr (cm\<lparr>persisted := (persisted cm)(n \<mapsto> sc)\<rparr>))"

text \<open>
  Modelled from the spec: \<^verbatim>\<open>ConfigManager.removeServer\<close>, which is missing. Section 6 of
  the specification: \<^verbatim>\<open>persistRemove(name)\<close> either fully succeeds or fails without a
  partial write.
\<close>

definition cm_removeServer ::
  "persist_outcome \<Rightarrow> string \<Rightarrow> ConfigManager \<Rightarrow> string + ConfigManager" where
  "cm_removeServer out n cm =
     (case out of
        PersistFails msg \<Rightarrow> Inl msg
      | PersistOk \<Rightarrow> Inr (cm\<lparr>persisted := (persisted cm)(n := None)\<rparr>))"

text \<open>
  The gateway object. \<^verbatim>\<open>servers\<close> is a JavaScript \<^verbatim>\<open>Map\<close>, which iterates in insertion
  order: an association list, where \<^verbatim>\<open>set\<close> is \<open>AList.update\<close> (an existing key keeps its
  place, a new key goes to the end), \<^verbatim>\<open>delete\<close> is \<open>AList.delete\<close>, \<^verbatim>\<open>get\<close> is \<open>map_of\<close>.
\<close>

record Gateway =
  servers :: "(string \<times> ServerState) list"
  gw_config :: GatewayConfig
  configManager :: ConfigManager

datatype event =
    SetTimeout int
  | ClientCallTool Client string json
  | ClientClose Client
  | Spawn string "string list"
  | ConfigAddServer string ServerConfig
  | ConfigRemoveServer string

type_synonym 'a outcome = "(string + 'a) \<times> event list \<times> Gateway"

section \<open>Strings\<close>

text \<open>\<^verbatim>\<open>String.prototype.includes\<close>: the argument occurs as a contiguous substring.\<close>

fun str_includes :: "string \<Rightarrow> string \<Rightarrow> bool" where
  "str_includes [] sub = (sub = [])"
| "str_includes (c # cs) sub = (prefix sub (c # cs) \<or> str_includes cs sub)"

text \<open>
  A number in a template literal, as \<^verbatim>\<open>Number::toString\<close> of ECMAScript prints it.
  Numbers are integers here. Below \<open>2 ^ 53\<close> an integer is a number and is printed by
  its decimal digits. From \<open>2 ^ 53\<close> on, the number is the double nearest to the integer
  (ties to the even mantissa), it is printed by the shortest digits that read back as the
  same double (the closest of them, the even one at a tie), and from 21 digits on in
  exponent form; from \<open>2 ^ 1024\<close> on it is \<^verbatim>\<open>Infinity\<close>.
\<close>

definition digit :: "nat \<Rightarrow> char" where
  "digit d = ''0123456789'' ! d"

fun nat_to_string :: "nat \<Rightarrow> string" where
  "nat_to_string n =
     (if n < 10 then [digit n] else nat_to_string (n div 10) @ [digit (n mod 10)])"

fun bit_length :: "nat \<Rightarrow> nat" where
  "bit_length n = (if n = 0 then 0 else Suc (bit_length (n div 2)))"

definition to_double :: "nat \<Rightarrow> nat" where
  "to_double x =
     (if x < 2 ^ 53 then x
      else let e = bit_length x - 53;
               q = x div 2 ^ e;
               r = x mod 2 ^ e;
               half = 2 ^ (e - 1)
           in (if half < r \<or> (r = half \<and> odd q) then q + 1 else q) * 2 ^ e)"

text \<open>
  The shortest decimal that reads back as the double \<open>v\<close>: the multiples of
  \<open>10 ^ j\<close> next to \<open>v\<close> are tried with \<open>j\<close> going down.
\<close>

fun shortest :: "nat \<Rightarrow> nat \<Rightarrow> nat" where
  "shortest v 0 = v"
| "shortest v (Suc j) =
     (let p = 10 ^ Suc j;
          lo = (v div p) * p;
          hi = lo + p;
          ok_lo = (to_double lo = v);
          ok_hi = (to_double hi = v)
      in if ok_lo \<and> ok_hi then
           (if v - lo < hi - v then lo
            else if hi - v < v - lo then hi
            else if even (v div p) then lo else hi)
         else if ok_lo then lo
         else if ok_hi then hi
         else shortest v j)"

definition strip_zeros :: "string \<Rightarrow> string" where
  "strip_zeros ds = rev (dropWhile (\<lambda>c. c = CHR ''0'') (rev ds))"

definition exponent_form :: "nat \<Rightarrow> string" where
  "exponent_form c =
     (let ds = nat_to_string c;
          s = strip_zeros ds
      in hd s # (if length s = 1 then [] else CHR ''.'' # tl s) @ ''e+'' @
           nat_to_string (length ds - 1))"

definition positive_to_string :: "nat \<Rightarrow> string" where
  "positive_to_string x =
     (if x < 2 ^ 53 then nat_to_string x
      else let v = to_double x in
        if 2 ^ 1024 \<le> v then ''Infinity''
        else let c = shortest v (length (nat_to_string v) - 1) in
          if length (nat_to_string c) \<le> 21 then nat_to_string c else exponent_form c)"

definition number_to_string :: "int \<Rightarrow> string" where
  "number_to_string i =
     (if i < 0 then CHR ''-'' # positive_to_string (nat (- i))
      else positive_to_string (nat i))"

text \<open>\<^verbatim>\<open>'${s}'\<close>: a string between single quotes.\<close>

definition quoted :: "string \<Rightarrow> string" where
  "quoted s = CHR 0x27 # s @ [CHR 0x27]"

text \<open>\<^verbatim>\<open>new Error(`${code}: ${text}`)\<close>.\<close>

definition mk_error :: "ErrorCode \<Rightarrow> string \<Rightarrow> string" where
  "mk_error c txt = code_str c @ '': '' @ txt"

section \<open>connectServer\<close>

text \<open>
  What the collaborators answer to one connect: the spawn, \<^verbatim>\<open>client.connect\<close> and
  \<^verbatim>\<open>client.listTools\<close> all succeed, giving the new client, the tools listed and the
  current date; or one of them throws an error with the given message.
\<close>

datatype connect_answer = ConnectOk Client "Tool list" Date | ConnectFails string

definition initial_state :: "ServerConfig \<Rightarrow> ServerState" where
  "initial_state sc =
     \<lparr>config = sc, status = Disconnected, client = None, tools = [],
      reconnectAttempts = 0, lastError = None, lastConnected = None\<rparr>"

definition copy_tool :: "Tool \<Rightarrow> Tool" where
  "copy_tool t = \<lparr>tool_name = tool_name t, description = description t,
                  inputSchema = inputSchema t\<rparr>"

definition spawn_args :: "ServerConfig \<Rightarrow> string list" where
  "spawn_args sc = package sc # (case args sc of None \<Rightarrow> [] | Some as \<Rightarrow> as)"

definition connectServer :: "connect_answer \<Rightarrow> string \<Rightarrow> ServerConfig \<Rightarrow> Gateway \<Rightarrow> unit outcome" where
  "connectServer ans n sc g =
     (let serverState = initial_state sc;
          g1 = g\<lparr>servers := AList.update n serverState (servers g)\<rparr>;
          evs = [Spawn ''npx'' (spawn_args sc)]
      in case ans of
           ConnectOk c ts now \<Rightarrow>
             (Inr (), evs,
              g1\<lparr>servers := AList.update n
                   (serverState\<lparr>client := Some c, tools := map copy_tool ts,
                                status := Connected, lastConnected := Some now,
                                reconnectAttempts := 0\<rparr>) (servers g1)\<rparr>)
         | ConnectFails msg \<Rightarrow>
             (Inl msg, evs,
              g1\<lparr>servers := AList.update n
                   (serverState\<lparr>status := Error, lastError := Some msg\<rparr>) (servers g1)\<rparr>))"

section \<open>callTool\<close>

text \<open>
  What happens to the race of \<^verbatim>\<open>client.callTool\<close> against the timer: the send settles
  first (it resolves with a payload, or rejects with an error that is a failure of the
  transport or a failure reported by the tool), or the timer fires first.
\<close>

datatype failure_kind = TransportFailure | ApplicationFailure

datatype send_result = Resolves json | Rejects failure_kind string

datatype race = SendSettlesFirst send_result | TimeoutFiresFirst

text \<open>
  \<^verbatim>\<open>this.config.gateway.timeout || 30000\<close>: an absent value and 0 are falsy. Numbers are
  integers here.
\<close>

definition effective_timeout :: "Gateway \<Rightarrow> int" where
  "effective_timeout g =
     (case timeout (gateway (gw_config g)) of
        None \<Rightarrow> 30000
      | Some t \<Rightarrow> if t = 0 then 30000 else t)"

definition timeout_error :: "int \<Rightarrow> string" where
  "timeout_error t =
     mk_error TOOL_TIMEOUT (''Tool execution exceeded '' @ number_to_string t @ ''ms timeout'')"

text \<open>The \<^verbatim>\<open>catch\<close> block of \<^verbatim>\<open>callTool\<close>: the error thrown for a caught message.\<close>

definition callTool_catch :: "string \<Rightarrow> string" where
  "callTool_catch msg =
     (if str_includes msg (code_str TOOL_TIMEOUT) then msg
      else mk_error TOOL_EXECUTION_ERROR msg)"

definition callTool :: "race \<Rightarrow> string \<Rightarrow> string \<Rightarrow> json \<Rightarrow> Gateway \<Rightarrow> json outcome" where
  "callTool r serverName toolName arguments g =
     (case map_of (servers g) serverName of
        None \<Rightarrow>
          (Inl (mk_error SERVER_NOT_FOUND (''Server '' @ quoted serverName @ '' not found'')), [], g)
      | Some serverState \<Rightarrow>
          (case (status serverState, client serverState) of
             (Connected, Some c) \<Rightarrow>
               (let t = effective_timeout g;
                    evs = [SetTimeout t, ClientCallTool c toolName arguments]
                in case r of
                     SendSettlesFirst (Resolves result) \<Rightarrow> (Inr result, evs, g)
                   | SendSettlesFirst (Rejects k msg) \<Rightarrow> (Inl (callTool_catch msg), evs, g)
                   | TimeoutFiresFirst \<Rightarrow> (Inl (callTool_catch (timeout_error t)), evs, g))
           | _ \<Rightarrow>
               (Inl (mk_error SERVER_DISCONNECTED
                      (''Server '' @ quoted serverName @ '' is not connected'')), [], g)))"

section \<open>getServerInfo and getServerTools\<close>

text \<open>\<^verbatim>\<open>Date.prototype.toISOString\<close> is a parameter: the snapshot holds what it prints.\<close>

definition server_info :: "(Date \<Rightarrow> string) \<Rightarrow> string \<times> ServerState \<Rightarrow> ServerInfo" where
  "server_info toISOString e =
     \<lparr>info_name = fst e,
      info_package = package (config (snd e)),
      info_status = status (snd e),
      toolCount = length (tools (snd e)),
      info_error = lastError (snd e),
      info_lastConnected = map_option toISOString (lastConnected (snd e))\<rparr>"

text \<open>
  \<^verbatim>\<open>getServerInfo\<close>: the loop over the entries of the map pushes one snapshot for
  each entry onto \<^verbatim>\<open>serverInfoList\<close>. The gateway is passed through the loop, as it is
  through the other operations; the method returns the list.
\<close>

fun getServerInfo_loop ::
  "(Date \<Rightarrow> string) \<Rightarrow> (string \<times> ServerState) list \<Rightarrow> ServerInfo list \<Rightarrow> Gateway \<Rightarrow>
   ServerInfo list \<times> Gateway" where
  "getServerInfo_loop toISOString [] serverInfoList g = (serverInfoList, g)"
| "getServerInfo_loop toISOString (e # es) serverInfoList g =
     getServerInfo_loop toISOString es (serverInfoList @ [server_info toISOString e]) g"

definition getServerInfo_call :: "(Date \<Rightarrow> string) \<Rightarrow> Gateway \<Rightarrow> ServerInfo list \<times> Gateway" where
  "getServerInfo_call toISOString g = getServerInfo_loop toISOString (servers g) [] g"

definition getServerInfo :: "(Date \<Rightarrow> string) \<Rightarrow> Gateway \<Rightarrow> ServerInfo list" where
  "getServerInfo toISOString g = fst (getServerInfo_call toISOString g)"

definition getServerTools :: "string \<Rightarrow> Gateway \<Rightarrow> string + Tool list" where
  "getServerTools serverName g =
     (case map_of (servers g) serverName of
        None \<Rightarrow> Inl (mk_error SERVER_NOT_FOUND (''Server '' @ quoted serverName @ '' not found''))
      | Some serverState \<Rightarrow> Inr (tools serverState))"

section \<open>addServer and removeServer\<close>

definition addServer ::
  "persist_outcome \<Rightarrow> connect_answer \<Rightarrow> string \<Rightarrow> string \<Rightarrow> string list option \<Rightarrow> Gateway \<Rightarrow> unit outcome" where
  "addServer p ans n pkg as g =
     (if map_of (servers g) n \<noteq> None then
        (Inl (mk_error SERVER_ALREADY_EXISTS (''Server '' @ quoted n @ '' already exists'')), [], g)
      else
        (let serverConfig = \<lparr>name = n, package = pkg, args = as\<rparr>;
             ev = ConfigAddServer n serverConfig
         in case cm_addServer p n serverConfig (configManager g) of
              Inl msg \<Rightarrow> (Inl (mk_error SERVER_ADD_FAILED msg), [ev], g)
            | Inr cm \<Rightarrow>
                (case connectServer ans n serverConfig (g\<lparr>configManager := cm\<rparr>) of
                   (Inl msg, evs, g') \<Rightarrow> (Inl (mk_error SERVER_ADD_FAILED msg), ev # evs, g')
                 | (Inr u, evs, g') \<Rightarrow> (Inr (), ev # evs, g'))))"

text \<open>What \<^verbatim>\<open>client.close()\<close> answers.\<close>

datatype close_answer = CloseOk | CloseFails string

text \<open>
  The statements of \<^verbatim>\<open>removeServer\<close> after the client is closed: delete the entry of
  the map, then ask the configuration manager to remove the name. The events so far are
  passed in.
\<close>

definition removeServer_rest ::
  "event list \<Rightarrow> persist_outcome \<Rightarrow> string \<Rightarrow> Gateway \<Rightarrow> unit outcome" where
  "removeServer_rest evs0 p n g =
     (let g1 = g\<lparr>servers := AList.delete n (servers g)\<rparr>;
          evs = evs0 @ [ConfigRemoveServer n]
      in case cm_removeServer p n (configManager g1) of
           Inl msg \<Rightarrow> (Inl msg, evs, g1)
         | Inr cm \<Rightarrow> (Inr (), evs, g1\<lparr>configManager := cm\<rparr>))"

definition removeServer ::
  "close_answer \<Rightarrow> persist_outcome \<Rightarrow> string \<Rightarrow> Gateway \<Rightarrow> unit outcome" where
  "removeServer cl p n g =
     (case map_of (servers g) n of
        None \<Rightarrow> (Inl (mk_error SERVER_NOT_FOUND (''Server '' @ quoted n @ '' not found'')), [], g)
      | Some serverState \<Rightarrow>
          (case client serverState of
             None \<Rightarrow> removeServer_rest [] p n g
           | Some c \<Rightarrow>
               (case cl of
                  CloseFails msg \<Rightarrow> (Inl msg, [ClientClose c], g)
                | CloseOk \<Rightarrow> removeServer_rest [ClientClose c] p n g)))"

section \<open>Sequences of operations\<close>

text \<open>
  The operations of a running gateway that write its state, each with the answers of
  the collaborators it meets, and the state after a sequence of them.
\<close>

datatype op =
    CallTool race string string json
  | AddServer persist_outcome connect_answer string string "string list option"
  | RemoveServer close_answer persist_outcome string

fun step :: "op \<Rightarrow> Gateway \<Rightarrow> Gateway" where
  "step (CallTool r sn tn a) g = snd (snd (callTool r sn tn a g))"
| "step (AddServer p ans n pkg as) g = snd (snd (addServer p ans n pkg as g))"
| "step (RemoveServer cl p n) g = snd (snd (removeServer cl p n g))"

fun run :: "op list \<Rightarrow> Gateway \<Rightarrow> Gateway" where
  "run [] g = g"
| "run (x # xs) g = run xs (step x g)"

fun removes :: "string \<Rightarrow> op \<Rightarrow> bool" where
  "removes n (RemoveServer cl p m) = (m = n)"
| "removes n (CallTool r sn tn a) = False"
| "removes n (AddServer p ans m pkg as) = False"

section \<open>Example states\<close>

definition default_settings :: GatewaySettings where
  "default_settings = \<lparr>port = 3000, host = ''localhost'', timeout = Some 30000, logLevel = Info\<rparr>"

definition empty_gateway :: Gateway where
  "empty_gateway =
     \<lparr>servers = [],
      gw_config = \<lparr>cfg_servers = [], gateway = default_settings\<rparr>,
      configManager = \<lparr>persisted = Map.empty\<rparr>\<rparr>"

definition fs_config :: ServerConfig where
  "fs_config = \<lparr>name = ''fs'', package = ''server-filesystem'', args = Some [''/tmp'']\<rparr>"

definition read_tool :: Tool where
  "read_tool = \<lparr>tool_name = ''read'', description = None, inputSchema = ''{}''\<rparr>"

text \<open>The gateway after \<^verbatim>\<open>fs\<close> was added and connected as client 7 at time 1000.\<close>

definition fs_ready :: Gateway where
  "fs_ready =
     empty_gateway\<lparr>
       servers := [(''fs'', (initial_state fs_config)\<lparr>client := Some 7, tools := [read_tool],
                      status := Connected, lastConnected := Some 1000\<rparr>)],
       configManager := \<lparr>persisted = [''fs'' \<mapsto> fs_config]\<rparr>\<rparr>"

text \<open>The same with the timeout configured as given, or not configured.\<close>

definition fs_ready_timeout :: "int option \<Rightarrow> Gateway" where
  "fs_ready_timeout t =
     fs_ready\<lparr>gw_config := \<lparr>cfg_servers = [], gateway = default_settings\<lparr>timeout := t\<rparr>\<rparr>\<rparr>"

text \<open>The gateway whose only backend failed to connect.\<close>

definition fs_failed :: Gateway where
  "fs_failed =
     empty_gateway\<lparr>
       servers := [(''fs'', (initial_state fs_config)\<lparr>status := Error,
                      lastError := Some ''Connection refused''\<rparr>)],
       configManager := \<lparr>persisted = [''fs'' \<mapsto> fs_config]\<rparr>\<rparr>"

text \<open>The gateway after the connect of a new backend \<^verbatim>\<open>x\<close> failed.\<close>

definition x_config :: ServerConfig where
  "x_config = \<lparr>name = ''x'', package = ''pkg'', args = None\<rparr>"

definition x_failed :: Gateway where
  "x_failed =
     empty_gateway\<lparr>
       servers := [(''x'', (initial_state x_config)\<lparr>status := Error, lastError := Some ''spawn ENOENT''\<rparr>)],
       configManager := \<lparr>persisted = [''x'' \<mapsto> x_config]\<rparr>\<rparr>"

text \<open>Operations none of which removes \<^verbatim>\<open>x\<close>.\<close>

definition later_ops :: "op list" where
  "later_ops =
     [CallTool TimeoutFiresFirst ''x'' ''read'' ''{}'',
      AddServer PersistOk (ConnectOk 9 [] 3000) ''x'' ''pkg'' None,
      RemoveServer CloseOk PersistOk ''other'',
      AddServer PersistOk (ConnectOk 9 [] 3000) ''other'' ''pkg2'' None]"

text \<open>A call whose send fails in the transport: the channel of \<^verbatim>\<open>fs\<close> is dead.\<close>

definition channel_death :: op where
  "channel_death = CallTool (SendSettlesFirst (Rejects TransportFailure ''EPIPE'')) ''fs'' ''read'' ''{}''"

text \<open>
  Two results of a send that resolves: one of a tool that succeeded, one that carries the
  failure of the tool in its payload.
\<close>

definition tool_success_result :: json where
  "tool_success_result = ''{\"content\":[{\"type\":\"text\",\"text\":\"hello\"}]}''"

definition tool_failure_result :: json where
  "tool_failure_result = ''{\"content\":[{\"type\":\"text\",\"text\":\"ENOENT: no such file\"}],\"isError\":true}''"

text \<open>
  The gateway after \<^verbatim>\<open>fs\<close> was added and connected and then the connect of \<^verbatim>\<open>x\<close>
  failed; after \<^verbatim>\<open>fs\<close> was then removed; and after \<^verbatim>\<open>fs\<close> was then added again, as
  client 8 at time 2000.
\<close>

definition fs_and_x :: Gateway where
  "fs_and_x =
     empty_gateway\<lparr>
       servers := [(''fs'', (initial_state fs_config)\<lparr>client := Some 7, tools := [read_tool],
                      status := Connected, lastConnected := Some 1000\<rparr>),
                   (''x'', (initial_state x_config)\<lparr>status := Error, lastError := Some ''spawn ENOENT''\<rparr>)],
       configManager := \<lparr>persisted = [''fs'' \<mapsto> fs_config, ''x'' \<mapsto> x_config]\<rparr>\<rparr>"

definition x_only :: Gateway where
  "x_only =
     empty_gateway\<lparr>
       servers := [(''x'', (initial_state x_config)\<lparr>status := Error, lastError := Some ''spawn ENOENT''\<rparr>)],
       configManager := \<lparr>persisted = [''x'' \<mapsto> x_config]\<rparr>\<rparr>"

definition x_then_fs :: Gateway where
  "x_then_fs =
     empty_gateway\<lparr>
       servers := [(''x'', (initial_state x_config)\<lparr>status := Error, lastError := Some ''spawn ENOENT''\<rparr>),
                   (''fs'', (initial_state fs_config)\<lparr>client := Some 8, tools := [read_tool],
                      status := Connected, lastConnected := Some 2000\<rparr>)],
       configManager := \<lparr>persisted = [''x'' \<mapsto> x_config, ''fs'' \<mapsto> fs_config]\<rparr>\<rparr>"

text \<open>The snapshots of the two backends.\<close>

definition fs_snapshot :: "string \<Rightarrow> ServerInfo" where
  "fs_snapshot d =
     \<lparr>info_name = ''fs'', info_package = ''server-filesystem'', info_status = Connected,
      toolCount = 1, info_error = None, info_lastConnected = Some d\<rparr>"

definition x_snapshot :: ServerInfo where
  "x_snapshot =
     \<lparr>info_name = ''x'', info_package = ''pkg'', info_status = Error,
      toolCount = 0, info_error = Some ''spawn ENOENT'', info_lastConnected = None\<rparr>"

section \<open>Auxiliary notions for the proofs\<close>

text \<open>
  The handle that \<^verbatim>\<open>connectServer\<close> leaves in the map: the object it created, after
  the assignments of the \<^verbatim>\<open>try\<close> block or of the \<^verbatim>\<open>catch\<close> block.
\<close>

definition connected_state :: "ServerConfig \<Rightarrow> Client \<Rightarrow> Tool list \<Rightarrow> Date \<Rightarrow> ServerState" where
  "connected_state sc c ts now =
     \<lparr>config = sc, status = Connected, client = Some c, tools = map copy_tool ts,
      reconnectAttempts = 0, lastError = None, lastConnected = Some now\<rparr>"

definition error_state :: "ServerConfig \<Rightarrow> string \<Rightarrow> ServerState" where
  "error_state sc msg =
     \<lparr>config = sc, status = Error, client = None, tools = [],
      reconnectAttempts = 0, lastError = Some msg, lastConnected = None\<rparr>"

definition final_state :: "connect_answer \<Rightarrow> ServerConfig \<Rightarrow> ServerState" where
  "final_state ans sc =
     (case ans of ConnectOk c ts now \<Rightarrow> connected_state sc c ts now
                | ConnectFails msg \<Rightarrow> error_state sc msg)"

text \<open>The call to \<^verbatim>\<open>client.close\<close> that \<^verbatim>\<open>removeServer\<close> makes for a handle.\<close>

definition closing :: "ServerState \<Rightarrow> event list" where
  "closing st = (case client st of None \<Rightarrow> [] | Some c \<Rightarrow> [ClientClose c])"

text \<open>A handle on which no reconnect was ever counted or started.\<close>

definition no_reconnect :: "string \<times> ServerState \<Rightarrow> bool" where
  "no_reconnect e = (reconnectAttempts (snd e) = 0 \<and> status (snd e) \<noteq> Reconnecting)"

section \<open>Facts about strings and about callTool\<close>

text \<open>\<open>str_includes\<close> is the substring relation.\<close>

lemma str_includes_iff: "str_includes s sub \<longleftrightarrow> (\<exists>p q. s = p @ sub @ q)"
proof (induction s)
  case Nil
  then show ?case by auto
next
  case (Cons c cs)
  show ?case
  proof
    assume "str_includes (c # cs) sub"
    then consider "prefix sub (c # cs)" | "str_includes cs sub" by auto
    then show "\<exists>p q. c # cs = p @ sub @ q"
    proof cases
      case 1
      then obtain q where "c # cs = sub @ q" by (auto simp: prefix_def)
      then have "c # cs = [] @ sub @ q" by simp
      then show ?thesis by blast
    next
      case 2
      with Cons.IH obtain p q where "cs = p @ sub @ q" by blast
      then have "c # cs = (c # p) @ sub @ q" by simp
      then show ?thesis by blast
    qed
  next
    assume "\<exists>p q. c # cs = p @ sub @ q"
    then obtain p q where pq: "c # cs = p @ sub @ q" by blast
    show "str_includes (c # cs) sub"
    proof (cases p)
      case Nil
      with pq have "prefix sub (c # cs)" by (simp add: prefix_def)
      then show ?thesis by simp
    next
      case (Cons a p')
      with pq have "cs = p' @ sub @ q" by simp
      with Cons.IH have "str_includes cs sub" by blast
      then show ?thesis by simp
    qed
  qed
qed

lemma callTool_state: "snd (snd (callTool r sn tn a g)) = g"
  by (simp add: callTool_def Let_def
      split: option.splits Status.splits race.splits send_result.splits)

lemma timeout_error_includes: "str_includes (timeout_error t) (code_str TOOL_TIMEOUT)"
  unfolding str_includes_iff timeout_error_def mk_error_def
  by (metis append_Nil)

text \<open>What \<^verbatim>\<open>callTool\<close> does once both guards are passed.\<close>

lemma callTool_ready:
  assumes "map_of (servers g) sn = Some st" and "status st = Connected" and "client st = Some c"
  shows "callTool r sn tn a g =
    ((case r of
        SendSettlesFirst (Resolves res) \<Rightarrow> Inr res
      | SendSettlesFirst (Rejects k msg) \<Rightarrow> Inl (callTool_catch msg)
      | TimeoutFiresFirst \<Rightarrow> Inl (callTool_catch (timeout_error (effective_timeout g)))),
     [SetTimeout (effective_timeout g), ClientCallTool c tn a], g)"
  using assms
  by (simp add: callTool_def Let_def split: race.splits send_result.splits)

lemma callTool_catch_timeout: "callTool_catch (timeout_error t) = timeout_error t"
  using timeout_error_includes [of t] by (simp add: callTool_catch_def)

lemma callTool_catch_cases:
  "callTool_catch msg =
     (if (\<exists>p q. msg = p @ ''TOOL_TIMEOUT'' @ q) then msg else ''TOOL_EXECUTION_ERROR: '' @ msg)"
  by (simp add: callTool_catch_def str_includes_iff mk_error_def)

text \<open>Lookups in the example states.\<close>

lemma fs_ready_lookup:
  "map_of (servers (fs_ready_timeout t)) ''fs'' =
     Some ((initial_state fs_config)\<lparr>client := Some 7, tools := [read_tool],
             status := Connected, lastConnected := Some 1000\<rparr>)"
  by (simp add: fs_ready_timeout_def fs_ready_def empty_gateway_def)

lemma fs_ready_default: "fs_ready_timeout (Some 30000) = fs_ready"
  by (simp add: fs_ready_timeout_def fs_ready_def empty_gateway_def default_settings_def)

lemma nts_5000: "number_to_string 5000 = ''5000''"
  by (simp add: number_to_string_def positive_to_string_def digit_def)

text \<open>From 21 digits on a number is printed in exponent form.\<close>

lemma bit_length_numeral:
  "bit_length (numeral (Num.Bit0 n)) = Suc (bit_length (numeral n))"
  "bit_length (numeral (Num.Bit1 n)) = Suc (bit_length (numeral n))"
  "bit_length (Suc 0) = Suc 0" "bit_length 1 = Suc 0" "bit_length 0 = 0"
  by (simp_all add: numeral_Bit0_div_2 numeral_Bit1_div_2)

lemma nts_exponent: "number_to_string 1000000000000000000000 = ''1e+21''"
  by (simp add: number_to_string_def positive_to_string_def to_double_def exponent_form_def
      strip_zeros_def digit_def Let_def bit_length_numeral del: bit_length.simps)

text \<open>A message without the substring, and the timer of an example state.\<close>

lemma not_includes_EPIPE: "\<not> (\<exists>p q. ''EPIPE'' = p @ ''TOOL_TIMEOUT'' @ q)"
  using str_includes_iff [of "''EPIPE''" "''TOOL_TIMEOUT''"] by simp

lemma fs_ready_timeout_30000: "effective_timeout fs_ready = 30000"
  by (simp add: effective_timeout_def fs_ready_def empty_gateway_def default_settings_def)

section \<open>Facts about getServerInfo\<close>

text \<open>The loop appends the snapshots of the entries, in order, and returns the gateway.\<close>

lemma getServerInfo_loop_eq:
  "getServerInfo_loop f es acc g = (acc @ map (server_info f) es, g)"
  by (induction es arbitrary: acc) simp_all

lemma getServerInfo_call_eq:
  "getServerInfo_call f g = (map (server_info f) (servers g), g)"
  by (simp add: getServerInfo_call_def getServerInfo_loop_eq)

lemma getServerInfo_map: "getServerInfo f g = map (server_info f) (servers g)"
  by (simp add: getServerInfo_def getServerInfo_call_eq)

section \<open>Facts about connectServer, addServer and removeServer\<close>

lemma connectServer_eq:
  "connectServer ans n sc g =
     ((case ans of ConnectOk c ts now \<Rightarrow> Inr () | ConnectFails msg \<Rightarrow> Inl msg),
      [Spawn ''npx'' (spawn_args sc)],
      g\<lparr>servers := AList.update n (final_state ans sc) (servers g)\<rparr>)"
  by (simp add: connectServer_def Let_def final_state_def connected_state_def error_state_def
      initial_state_def split: connect_answer.splits)

lemma addServer_exists:
  "map_of (servers g) n = Some st \<Longrightarrow>
   addServer p ans n pkg as g =
     (Inl (mk_error SERVER_ALREADY_EXISTS (''Server '' @ quoted n @ '' already exists'')), [], g)"
  by (simp add: addServer_def)

lemma addServer_persist_fails:
  "map_of (servers g) n = None \<Longrightarrow>
   addServer (PersistFails msg) ans n pkg as g =
     (Inl (mk_error SERVER_ADD_FAILED msg),
      [ConfigAddServer n \<lparr>name = n, package = pkg, args = as\<rparr>], g)"
  by (simp add: addServer_def cm_addServer_def)

lemma addServer_persisted:
  "map_of (servers g) n = None \<Longrightarrow>
   addServer PersistOk ans n pkg as g =
     ((case ans of ConnectOk c ts now \<Rightarrow> Inr () | ConnectFails msg \<Rightarrow> Inl (mk_error SERVER_ADD_FAILED msg)),
      [ConfigAddServer n \<lparr>name = n, package = pkg, args = as\<rparr>,
       Spawn ''npx'' (spawn_args \<lparr>name = n, package = pkg, args = as\<rparr>)],
      g\<lparr>configManager := (configManager g)\<lparr>persisted :=
             (persisted (configManager g))(n \<mapsto> \<lparr>name = n, package = pkg, args = as\<rparr>)\<rparr>,
        servers := AList.update n (final_state ans \<lparr>name = n, package = pkg, args = as\<rparr>) (servers g)\<rparr>)"
  by (simp add: addServer_def cm_addServer_def connectServer_eq Let_def
      split: connect_answer.splits)

lemma addServer_success:
  assumes "addServer p ans x pkg as g = (Inr (), evs, g1)"
  shows "map_of (servers g) x = None \<and> p = PersistOk \<and> (\<exists>c ts now. ans = ConnectOk c ts now)"
proof -
  have a: "map_of (servers g) x = None"
    using assms by (cases "map_of (servers g) x") (simp_all add: addServer_def)
  have b: "p = PersistOk"
    using assms a addServer_persist_fails [of g x _ ans pkg as] by (cases p) auto
  have "\<exists>c ts now. ans = ConnectOk c ts now"
    using assms a b addServer_persisted [of g x ans pkg as] by (cases ans) auto
  with a b show ?thesis by blast
qed

lemma removeServer_absent:
  "map_of (servers g) n = None \<Longrightarrow>
   removeServer cl p n g =
     (Inl (mk_error SERVER_NOT_FOUND (''Server '' @ quoted n @ '' not found'')), [], g)"
  by (simp add: removeServer_def)

lemma removeServer_closed:
  "map_of (servers g) n = Some st \<Longrightarrow> client st = None \<or> cl = CloseOk \<Longrightarrow>
   removeServer cl p n g =
     ((case p of PersistOk \<Rightarrow> Inr () | PersistFails msg \<Rightarrow> Inl msg),
      closing st @ [ConfigRemoveServer n],
      (case p of
         PersistOk \<Rightarrow>
           g\<lparr>servers := AList.delete n (servers g),
             configManager := (configManager g)\<lparr>persisted := (persisted (configManager g))(n := None)\<rparr>\<rparr>
       | PersistFails msg \<Rightarrow> g\<lparr>servers := AList.delete n (servers g)\<rparr>))"
  by (auto simp add: removeServer_def removeServer_rest_def cm_removeServer_def closing_def Let_def
      split: option.splits persist_outcome.splits close_answer.splits)

lemma removeServer_close_fails:
  "map_of (servers g) n = Some st \<Longrightarrow> client st = Some c \<Longrightarrow>
   removeServer (CloseFails msg) p n g = (Inl msg, [ClientClose c], g)"
  by (simp add: removeServer_def)

text \<open>What the two operations do to the map of handles.\<close>

lemma servers_addServer:
  "servers (snd (snd (addServer p ans m pkg as g))) = servers g \<or>
   (\<exists>v. servers (snd (snd (addServer p ans m pkg as g))) = AList.update m v (servers g))"
  by (cases p; cases "map_of (servers g) m"; cases ans)
     (auto simp add: addServer_def cm_addServer_def connectServer_eq Let_def)

lemma servers_removeServer:
  "servers (snd (snd (removeServer cl p m g))) = servers g \<or>
   servers (snd (snd (removeServer cl p m g))) = AList.delete m (servers g)"
  by (auto simp add: removeServer_def removeServer_rest_def cm_removeServer_def Let_def
      split: option.splits persist_outcome.splits close_answer.splits)

text \<open>A registered name stays registered until it is removed.\<close>

lemma registered_step:
  assumes "map_of (servers g) n \<noteq> None" and "\<not> removes n x"
  shows "map_of (servers (step x g)) n \<noteq> None"
proof (cases x)
  case (CallTool r sn tn a)
  with assms show ?thesis by (simp add: callTool_state)
next
  case (AddServer p ans m pkg as)
  with assms servers_addServer [of p ans m pkg as g] show ?thesis
    by (auto simp add: AList.update_conv')
next
  case (RemoveServer cl p m)
  with assms servers_removeServer [of cl p m g] show ?thesis
    by (auto simp add: AList.delete_conv')
qed

lemma registered_run:
  "map_of (servers g) n \<noteq> None \<Longrightarrow> list_all (\<lambda>x. \<not> removes n x) ops \<Longrightarrow>
   map_of (servers (run ops g)) n \<noteq> None"
proof (induction ops arbitrary: g)
  case Nil
  then show ?case by simp
next
  case (Cons x xs)
  from Cons.prems have "map_of (servers (step x g)) n \<noteq> None"
    by (simp add: registered_step)
  moreover from Cons.prems have "list_all (\<lambda>x. \<not> removes n x) xs" by simp
  ultimately show ?case using Cons.IH by simp
qed

text \<open>
  The keys of a JavaScript \<^verbatim>\<open>Map\<close> are distinct; the operations keep the association
  list so.
\<close>

lemma distinct_step:
  assumes "distinct (map fst (servers g))"
  shows "distinct (map fst (servers (step x g)))"
proof (cases x)
  case (CallTool r sn tn a)
  with assms show ?thesis by (simp add: callTool_state)
next
  case (AddServer p ans m pkg as)
  with assms servers_addServer [of p ans m pkg as g] show ?thesis
    by (auto simp add: AList.distinct_update)
next
  case (RemoveServer cl p m)
  with assms servers_removeServer [of cl p m g] show ?thesis
    by (auto simp add: AList.distinct_delete)
qed

lemma distinct_run:
  "distinct (map fst (servers g)) \<Longrightarrow> distinct (map fst (servers (run ops g)))"
  by (induction ops arbitrary: g) (simp_all add: distinct_step)

lemma count_key:
  "distinct (map fst al) \<Longrightarrow>
   length (filter (\<lambda>e. fst e = k) al) = (if map_of al k = None then 0 else 1)"
proof (induction al)
  case Nil
  then show ?case by simp
next
  case (Cons e al)
  show ?case
  proof (cases "fst e = k")
    case True
    with Cons.prems have "k \<notin> fst ` set al" by auto
    then have "filter (\<lambda>e. fst e = k) al = []" by (auto simp add: filter_empty_conv)
    with True show ?thesis by (cases e) simp
  next
    case False
    with Cons show ?thesis by (cases e) auto
  qed
qed

lemma filter_getServerInfo:
  "filter (\<lambda>s. info_name s = k) (getServerInfo toISOString g) =
     map (server_info toISOString) (filter (\<lambda>e. fst e = k) (servers g))"
  by (simp add: getServerInfo_map filter_map comp_def server_info_def)

text \<open>
  What the operations do to the list of snapshots: a new name goes to the end, a removed
  name leaves the others in place.
\<close>

lemma update_absent: "map_of al k = None \<Longrightarrow> AList.update k v al = al @ [(k, v)]"
  by (induction al) (auto split: if_splits)

lemma server_info_delete:
  "map (server_info f) (AList.delete k al) =
     filter (\<lambda>s. info_name s \<noteq> k) (map (server_info f) al)"
  by (induction al) (auto simp add: server_info_def)

lemma names_getServerInfo: "map info_name (getServerInfo f g) = map fst (servers g)"
  by (simp add: getServerInfo_map server_info_def comp_def)

lemma getServerInfo_added:
  "map_of (servers g) n = None \<Longrightarrow>
   getServerInfo f (snd (snd (addServer PersistOk ans n pkg as g))) =
     getServerInfo f g @ [server_info f (n, final_state ans \<lparr>name = n, package = pkg, args = as\<rparr>)]"
  by (simp add: addServer_persisted getServerInfo_map update_absent)

lemma getServerInfo_removed:
  "map_of (servers g) n = Some st \<Longrightarrow> client st = None \<or> cl = CloseOk \<Longrightarrow>
   getServerInfo f (snd (snd (removeServer cl p n g))) =
     filter (\<lambda>s. info_name s \<noteq> n) (getServerInfo f g)"
  by (cases p) (simp_all add: removeServer_closed getServerInfo_map server_info_delete)

text \<open>
  No operation writes the status \<^verbatim>\<open>reconnecting\<close> or a value other than 0 to
  \<^verbatim>\<open>reconnectAttempts\<close>.
\<close>

lemma list_all_update:
  "list_all P al \<Longrightarrow> P (k, v) \<Longrightarrow> list_all P (AList.update k v al)"
  by (induction al) auto

lemma list_all_delete: "list_all P al \<Longrightarrow> list_all P (AList.delete k al)"
  by (induction al) auto

lemma no_reconnect_final: "no_reconnect (k, final_state ans sc)"
  by (cases ans) (simp_all add: no_reconnect_def final_state_def connected_state_def error_state_def)

lemma no_reconnect_step:
  assumes "list_all no_reconnect (servers g)"
  shows "list_all no_reconnect (servers (step x g))"
proof (cases x)
  case (CallTool r sn tn a)
  with assms show ?thesis by (simp add: callTool_state)
next
  case (AddServer p ans m pkg as)
  show ?thesis
  proof (cases "map_of (servers g) m = None \<and> p = PersistOk")
    case True
    with assms AddServer addServer_persisted [of g m ans pkg as] show ?thesis
      by (simp add: list_all_update no_reconnect_final)
  next
    case False
    then have "snd (snd (addServer p ans m pkg as g)) = g"
      using addServer_exists [of g m _ p ans pkg as] addServer_persist_fails [of g m _ ans pkg as]
      by (cases p; cases "map_of (servers g) m") auto
    with assms AddServer show ?thesis by simp
  qed
next
  case (RemoveServer cl p m)
  with assms servers_removeServer [of cl p m g] show ?thesis
    by (auto simp add: list_all_delete)
qed

lemma no_reconnect_run:
  "list_all no_reconnect (servers g) \<Longrightarrow> list_all no_reconnect (servers (run ops g))"
  by (induction ops arbitrary: g) (simp_all add: no_reconnect_step)

text \<open>The example states, as the operations produce them.\<close>

lemma fs_add_example:
  "addServer PersistOk (ConnectOk 7 [read_tool] 1000) ''fs'' ''server-filesystem'' (Some [''/tmp''])
     empty_gateway =
   (Inr (), [ConfigAddServer ''fs'' fs_config, Spawn ''npx'' [''server-filesystem'', ''/tmp'']], fs_ready)"
  by (simp add: addServer_def cm_addServer_def connectServer_def Let_def spawn_args_def
      fs_ready_def empty_gateway_def fs_config_def initial_state_def copy_tool_def read_tool_def)

lemma fs_remove_example:
  "removeServer CloseOk PersistOk ''fs'' fs_ready =
   (Inr (), [ClientClose 7, ConfigRemoveServer ''fs''], empty_gateway)"
  by (simp add: removeServer_def removeServer_rest_def cm_removeServer_def Let_def
      fs_ready_def empty_gateway_def initial_state_def)

lemma x_add_example:
  "addServer PersistOk (ConnectFails ''spawn ENOENT'') ''x'' ''pkg'' None empty_gateway =
     (Inl ''SERVER_ADD_FAILED: spawn ENOENT'',
      [ConfigAddServer ''x'' x_config, Spawn ''npx'' [''pkg'']], x_failed)"
  by (simp add: addServer_def cm_addServer_def connectServer_def Let_def spawn_args_def mk_error_def
      x_failed_def empty_gateway_def x_config_def initial_state_def)

lemma fs_ready_example:
  "snd (snd (addServer PersistOk (ConnectOk 7 [read_tool] 1000) ''fs'' ''server-filesystem''
     (Some [''/tmp'']) empty_gateway)) = fs_ready"
  by (simp add: fs_add_example)

lemma fs_and_x_example:
  "snd (snd (addServer PersistOk (ConnectFails ''spawn ENOENT'') ''x'' ''pkg'' None fs_ready)) = fs_and_x"
  by (simp add: addServer_def cm_addServer_def connectServer_def Let_def
      fs_ready_def fs_and_x_def empty_gateway_def x_config_def initial_state_def)

lemma x_only_example:
  "snd (snd (removeServer CloseOk PersistOk ''fs'' fs_and_x)) = x_only"
  by (auto simp add: removeServer_def removeServer_rest_def cm_removeServer_def Let_def
      fs_and_x_def x_only_def empty_gateway_def initial_state_def fun_eq_iff)

lemma x_then_fs_example:
  "snd (snd (addServer PersistOk (ConnectOk 8 [read_tool] 2000) ''fs'' ''server-filesystem''
     (Some [''/tmp'']) x_only)) = x_then_fs"
  by (simp add: addServer_def cm_addServer_def connectServer_def Let_def
      x_only_def x_then_fs_def empty_gateway_def fs_config_def initial_state_def copy_tool_def
      read_tool_def)

section \<open>The claims\<close>

text \<open>
  C1. \<^verbatim>\<open>callTool\<close> on a name that is not registered fails with
  \<^verbatim>\<open>SERVER_NOT_FOUND\<close>; on a registered name whose handle is not connected, or has no
  client, it fails with \<^verbatim>\<open>SERVER_DISCONNECTED\<close>. In both cases the list of events is
  empty: no timer was started and nothing was sent; the answer does not depend on the
  race, and the gateway is unchanged.
\<close>

theorem callTool_fails_fast:
  "(map_of (servers g) sn = None \<longrightarrow>
      callTool r sn tn a g =
        (Inl (mk_error SERVER_NOT_FOUND (''Server '' @ quoted sn @ '' not found'')), [], g))
   \<and> (map_of (servers g) sn = Some st \<and> (status st \<noteq> Connected \<or> client st = None) \<longrightarrow>
      callTool r sn tn a g =
        (Inl (mk_error SERVER_DISCONNECTED (''Server '' @ quoted sn @ '' is not connected'')), [], g))"
  by (auto simp add: callTool_def split: option.splits Status.splits)

theorem callTool_fails_fast_witness:
  "map_of (servers fs_failed) ''ghost'' = None
   \<and> callTool TimeoutFiresFirst ''ghost'' ''read'' ''{}'' fs_failed =
       (Inl (mk_error SERVER_NOT_FOUND (''Server '' @ quoted ''ghost'' @ '' not found'')), [], fs_failed)
   \<and> map_option status (map_of (servers fs_failed) ''fs'') = Some Error
   \<and> callTool (SendSettlesFirst (Resolves ''ok'')) ''fs'' ''read'' ''{}'' fs_failed =
       (Inl (mk_error SERVER_DISCONNECTED (''Server '' @ quoted ''fs'' @ '' is not connected'')), [], fs_failed)"
  using callTool_fails_fast [of fs_failed "''ghost''" TimeoutFiresFirst "''read''" "''{}''"]
    callTool_fails_fast [of fs_failed "''fs''" "SendSettlesFirst (Resolves ''ok'')" "''read''" "''{}''"
      "(initial_state fs_config)\<lparr>status := Error, lastError := Some ''Connection refused''\<rparr>"]
  by (simp add: fs_failed_def empty_gateway_def)

text \<open>
  C2, as stated: the timer of the race has the configured value. With the timeout
  configured as 0 the timer is set to 30000.
\<close>

theorem timeout_zero_counterexample:
  "timeout (gateway (gw_config (fs_ready_timeout (Some 0)))) = Some 0
   \<and> fst (snd (callTool TimeoutFiresFirst ''fs'' ''read'' ''{}'' (fs_ready_timeout (Some 0)))) =
       [SetTimeout 30000, ClientCallTool 7 ''read'' ''{}'']"
  using callTool_ready [OF fs_ready_lookup [of "Some 0"], where c = 7 and r = TimeoutFiresFirst and tn = "''read''" and a = "''{}''"]
  by (simp add: initial_state_def effective_timeout_def fs_ready_timeout_def default_settings_def)

text \<open>
  C2, amended. Against a connected backend, whatever the race, \<^verbatim>\<open>callTool\<close> starts
  one timer and makes one send, in this order, and nothing else: nothing cancels the send
  and the gateway is unchanged. When the timer fires first the call fails with
  \<^verbatim>\<open>TOOL_TIMEOUT\<close>. The timer has the configured value when there is one and it is
  not 0, and 30000 when there is none or it is 0.
\<close>

theorem callTool_timeout_race:
  assumes "map_of (servers g) sn = Some st" and "status st = Connected" and "client st = Some c"
  shows "(\<exists>res. callTool r sn tn a g =
            (res, [SetTimeout (effective_timeout g), ClientCallTool c tn a], g))
    \<and> callTool TimeoutFiresFirst sn tn a g =
        (Inl (mk_error TOOL_TIMEOUT
               (''Tool execution exceeded '' @ number_to_string (effective_timeout g) @ ''ms timeout'')),
         [SetTimeout (effective_timeout g), ClientCallTool c tn a], g)
    \<and> (timeout (gateway (gw_config g)) = None \<longrightarrow> effective_timeout g = 30000)
    \<and> (timeout (gateway (gw_config g)) = Some 0 \<longrightarrow> effective_timeout g = 30000)
    \<and> (\<forall>t. timeout (gateway (gw_config g)) = Some t \<and> t \<noteq> 0 \<longrightarrow> effective_timeout g = t)"
proof -
  have "\<exists>res. callTool r sn tn a g =
          (res, [SetTimeout (effective_timeout g), ClientCallTool c tn a], g)"
    using callTool_ready [OF assms] by blast
  moreover have "callTool TimeoutFiresFirst sn tn a g =
        (Inl (mk_error TOOL_TIMEOUT
               (''Tool execution exceeded '' @ number_to_string (effective_timeout g) @ ''ms timeout'')),
         [SetTimeout (effective_timeout g), ClientCallTool c tn a], g)"
    using callTool_ready [OF assms, of TimeoutFiresFirst tn a]
    by (simp add: callTool_catch_timeout) (simp add: timeout_error_def)
  moreover have "timeout (gateway (gw_config g)) = None \<longrightarrow> effective_timeout g = 30000"
    by (simp add: effective_timeout_def)
  moreover have "timeout (gateway (gw_config g)) = Some 0 \<longrightarrow> effective_timeout g = 30000"
    by (simp add: effective_timeout_def)
  moreover have "\<forall>t. timeout (gateway (gw_config g)) = Some t \<and> t \<noteq> 0 \<longrightarrow> effective_timeout g = t"
    by (simp add: effective_timeout_def)
  ultimately show ?thesis by blast
qed

theorem callTool_timeout_race_witness:
  "callTool TimeoutFiresFirst ''fs'' ''read'' ''{}'' (fs_ready_timeout (Some 5000)) =
     (Inl ''TOOL_TIMEOUT: Tool execution exceeded 5000ms timeout'',
      [SetTimeout 5000, ClientCallTool 7 ''read'' ''{}''], fs_ready_timeout (Some 5000))
   \<and> effective_timeout (fs_ready_timeout None) = 30000"
  using callTool_timeout_race [OF fs_ready_lookup [of "Some 5000"], where c = 7 and r = TimeoutFiresFirst and tn = "''read''" and a = "''{}''"]
    callTool_timeout_race [OF fs_ready_lookup [of None], where c = 7 and r = TimeoutFiresFirst and tn = "''read''" and a = "''{}''"]
  by (simp add: fs_ready_timeout_def default_settings_def initial_state_def mk_error_def nts_5000)

text \<open>
  C3, as stated: a failure of the transport is surfaced as \<^verbatim>\<open>SERVER_DISCONNECTED\<close> after
  the handle has left the connected state, and a failure reported by the tool is surfaced
  as \<^verbatim>\<open>TOOL_EXECUTION_ERROR\<close>. A send that fails in the transport with the message
  \<^verbatim>\<open>EPIPE\<close> is surfaced as \<^verbatim>\<open>TOOL_EXECUTION_ERROR\<close> and the handle stays connected; and
  a send that resolves with the failure of the tool in its payload is returned as a
  success.
\<close>

theorem send_failure_counterexample:
  "callTool (SendSettlesFirst (Rejects TransportFailure ''EPIPE'')) ''fs'' ''read'' ''{}'' fs_ready =
     (Inl ''TOOL_EXECUTION_ERROR: EPIPE'', [SetTimeout 30000, ClientCallTool 7 ''read'' ''{}''], fs_ready)
   \<and> map_option status (map_of (servers fs_ready) ''fs'') = Some Connected
   \<and> fst (callTool (SendSettlesFirst (Resolves tool_failure_result)) ''fs'' ''read'' ''{}'' fs_ready) =
       Inr tool_failure_result"
proof -
  have a: "callTool (SendSettlesFirst (Rejects TransportFailure ''EPIPE'')) ''fs'' ''read'' ''{}'' fs_ready =
     (Inl ''TOOL_EXECUTION_ERROR: EPIPE'', [SetTimeout 30000, ClientCallTool 7 ''read'' ''{}''], fs_ready)"
    using callTool_ready [OF fs_ready_lookup [of "Some 30000"], where c = 7 and tn = "''read''"
        and a = "''{}''" and r = "SendSettlesFirst (Rejects TransportFailure ''EPIPE'')"]
      not_includes_EPIPE
    by (simp add: fs_ready_default callTool_catch_cases initial_state_def fs_ready_timeout_30000)
  have b: "map_option status (map_of (servers fs_ready) ''fs'') = Some Connected"
    by (simp add: fs_ready_def empty_gateway_def initial_state_def)
  have c: "fst (callTool (SendSettlesFirst (Resolves tool_failure_result)) ''fs'' ''read'' ''{}'' fs_ready) =
       Inr tool_failure_result"
    using callTool_ready [OF fs_ready_lookup [of "Some 30000"], where c = 7 and tn = "''read''"
        and a = "''{}''" and r = "SendSettlesFirst (Resolves tool_failure_result)"]
    by (simp add: fs_ready_default initial_state_def)
  show ?thesis by (intro conjI a b c)
qed

text \<open>
  C3, amended. Against a connected backend, when the send resolves before the timer,
  \<^verbatim>\<open>callTool\<close> returns the payload of the backend unchanged, whatever it is: the
  result of a tool that succeeded and a result that carries the failure of the tool
  alike. The result is not inspected; the call has started one timer and made one send,
  and the gateway is unchanged.
\<close>

theorem callTool_send_settles:
  assumes "map_of (servers g) sn = Some st" and "status st = Connected" and "client st = Some c"
  shows "callTool (SendSettlesFirst (Resolves res)) sn tn a g =
           (Inr res, [SetTimeout (effective_timeout g), ClientCallTool c tn a], g)"
  using callTool_ready [OF assms, of "SendSettlesFirst (Resolves res)" tn a]
  by simp

theorem callTool_send_settles_witness:
  "callTool (SendSettlesFirst (Resolves tool_success_result)) ''fs'' ''read'' ''{}'' fs_ready =
      (Inr tool_success_result, [SetTimeout 30000, ClientCallTool 7 ''read'' ''{}''], fs_ready)
   \<and> callTool (SendSettlesFirst (Resolves tool_failure_result)) ''fs'' ''read'' ''{}'' fs_ready =
      (Inr tool_failure_result, [SetTimeout 30000, ClientCallTool 7 ''read'' ''{}''], fs_ready)"
  using callTool_send_settles [OF fs_ready_lookup [of "Some 30000"], where c = 7 and tn = "''read''"
      and a = "''{}''" and res = tool_success_result]
    callTool_send_settles [OF fs_ready_lookup [of "Some 30000"], where c = 7 and tn = "''read''"
      and a = "''{}''" and res = tool_failure_result]
  by (simp add: fs_ready_default initial_state_def fs_ready_timeout_30000)

text \<open>
  C4, as stated: a failed add leaves no trace. When the configuration was persisted and
  the first connect fails, the name is in the map of handles, with status
  \<^verbatim>\<open>error\<close>, and in the persisted configuration.
\<close>

theorem failed_add_counterexample:
  "fst (addServer PersistOk (ConnectFails ''spawn ENOENT'') ''x'' ''pkg'' None empty_gateway) =
      Inl ''SERVER_ADD_FAILED: spawn ENOENT''
   \<and> map_option status
        (map_of (servers (snd (snd (addServer PersistOk (ConnectFails ''spawn ENOENT'') ''x'' ''pkg'' None
            empty_gateway)))) ''x'') = Some Error
   \<and> persisted (configManager (snd (snd (addServer PersistOk (ConnectFails ''spawn ENOENT'') ''x'' ''pkg'' None
        empty_gateway)))) ''x'' = Some \<lparr>name = ''x'', package = ''pkg'', args = None\<rparr>"
  using addServer_persisted [of empty_gateway "''x''" "ConnectFails ''spawn ENOENT''" "''pkg''" None]
  by (simp add: empty_gateway_def final_state_def error_state_def mk_error_def)

text \<open>
  C4, amended. \<^verbatim>\<open>addServer\<close> on a registered name fails with
  \<^verbatim>\<open>SERVER_ALREADY_EXISTS\<close>, calls no collaborator and changes nothing. On a new name,
  when persisting fails it fails with \<^verbatim>\<open>SERVER_ADD_FAILED\<close> and the gateway is
  unchanged: the name is neither registered nor persisted by this call. When persisting
  succeeds and the first connect fails it fails with \<^verbatim>\<open>SERVER_ADD_FAILED\<close>, and the name
  stays registered, with status \<^verbatim>\<open>error\<close>, and persisted.
\<close>

theorem addServer_failures:
  "(map_of (servers g) n = Some st \<longrightarrow>
      addServer p ans n pkg as g =
        (Inl (mk_error SERVER_ALREADY_EXISTS (''Server '' @ quoted n @ '' already exists'')), [], g))
   \<and> (map_of (servers g) n = None \<longrightarrow>
        addServer (PersistFails msg) ans n pkg as g =
          (Inl (mk_error SERVER_ADD_FAILED msg),
           [ConfigAddServer n \<lparr>name = n, package = pkg, args = as\<rparr>], g))
   \<and> (map_of (servers g) n = None \<and> addServer PersistOk (ConnectFails msg) n pkg as g = (res, evs, g') \<longrightarrow>
        res = Inl (mk_error SERVER_ADD_FAILED msg)
        \<and> map_option status (map_of (servers g') n) = Some Error
        \<and> persisted (configManager g') n = Some \<lparr>name = n, package = pkg, args = as\<rparr>)"
proof -
  have "map_of (servers g) n = None \<and> addServer PersistOk (ConnectFails msg) n pkg as g = (res, evs, g') \<longrightarrow>
        res = Inl (mk_error SERVER_ADD_FAILED msg)
        \<and> map_option status (map_of (servers g') n) = Some Error
        \<and> persisted (configManager g') n = Some \<lparr>name = n, package = pkg, args = as\<rparr>"
    using addServer_persisted [of g n "ConnectFails msg" pkg as]
    by (auto simp add: final_state_def error_state_def AList.update_conv')
  then show ?thesis
    using addServer_exists [of g n st p ans pkg as] addServer_persist_fails [of g n msg ans pkg as]
    by blast
qed

theorem addServer_failures_witness:
  "addServer PersistOk (ConnectOk 8 [] 2000) ''fs'' ''other'' None fs_ready =
      (Inl (mk_error SERVER_ALREADY_EXISTS (''Server '' @ quoted ''fs'' @ '' already exists'')), [], fs_ready)
   \<and> addServer (PersistFails ''EACCES'') (ConnectOk 8 [] 2000) ''x'' ''pkg'' None fs_ready =
      (Inl (mk_error SERVER_ADD_FAILED ''EACCES''),
       [ConfigAddServer ''x'' \<lparr>name = ''x'', package = ''pkg'', args = None\<rparr>], fs_ready)
   \<and> fst (addServer PersistOk (ConnectFails ''spawn ENOENT'') ''x'' ''pkg'' None fs_ready) =
        Inl (mk_error SERVER_ADD_FAILED ''spawn ENOENT'')
   \<and> map_option status (map_of (servers (snd (snd
        (addServer PersistOk (ConnectFails ''spawn ENOENT'') ''x'' ''pkg'' None fs_ready)))) ''x'') = Some Error"
  using addServer_failures [where g = fs_ready and n = "''fs''" and p = PersistOk
      and ans = "ConnectOk 8 [] 2000" and pkg = "''other''" and as = None
      and st = "(initial_state fs_config)\<lparr>client := Some 7, tools := [read_tool],
             status := Connected, lastConnected := Some 1000\<rparr>"]
    addServer_failures [where g = fs_ready and n = "''x''" and msg = "''EACCES''"
      and ans = "ConnectOk 8 [] 2000" and pkg = "''pkg''" and as = None]
    addServer_failures [where g = fs_ready and n = "''x''" and msg = "''spawn ENOENT''"
      and pkg = "''pkg''" and as = None
      and res = "fst (addServer PersistOk (ConnectFails ''spawn ENOENT'') ''x'' ''pkg'' None fs_ready)"
      and evs = "fst (snd (addServer PersistOk (ConnectFails ''spawn ENOENT'') ''x'' ''pkg'' None fs_ready))"
      and g' = "snd (snd (addServer PersistOk (ConnectFails ''spawn ENOENT'') ''x'' ''pkg'' None fs_ready))"]
  by (simp add: fs_ready_def empty_gateway_def)

text \<open>
  C5, as stated: a failure to close is not propagated, and any failure leaves the map
  of handles and the persisted configuration consistent. A failing close is thrown to
  the caller; and when persisting the removal fails, the name is gone from the map but
  still in the persisted configuration.
\<close>

theorem removeServer_counterexample:
  "removeServer (CloseFails ''boom'') PersistOk ''fs'' fs_ready = (Inl ''boom'', [ClientClose 7], fs_ready)
   \<and> fst (removeServer CloseOk (PersistFails ''EACCES'') ''fs'' fs_ready) = Inl ''EACCES''
   \<and> map_of (servers (snd (snd (removeServer CloseOk (PersistFails ''EACCES'') ''fs'' fs_ready)))) ''fs'' = None
   \<and> persisted (configManager (snd (snd (removeServer CloseOk (PersistFails ''EACCES'') ''fs'' fs_ready)))) ''fs'' =
       Some fs_config"
  using removeServer_close_fails [OF fs_ready_lookup [of "Some 30000"], of 7 "''boom''" PersistOk]
    removeServer_closed [OF fs_ready_lookup [of "Some 30000"], of CloseOk "PersistFails ''EACCES''"]
  by (simp add: fs_ready_default initial_state_def) (simp add: fs_ready_def empty_gateway_def)

text \<open>
  C5, amended. \<^verbatim>\<open>removeServer\<close> on a name that is not registered fails with
  \<^verbatim>\<open>SERVER_NOT_FOUND\<close> and changes nothing. On a registered name it first closes the
  client, if there is one; once that has succeeded, or there is none, it deletes the
  entry of the map and then asks for the removal to be persisted, in this order. When
  persisting succeeds the name is absent from both; when it fails the error is thrown to
  the caller, with the entry already deleted and the persisted configuration as it was.
\<close>

theorem removeServer_order:
  "(map_of (servers g) n = None \<longrightarrow>
      removeServer cl p n g =
        (Inl (mk_error SERVER_NOT_FOUND (''Server '' @ quoted n @ '' not found'')), [], g))
   \<and> (map_of (servers g) n = Some st \<and> (client st = None \<or> cl = CloseOk) \<longrightarrow>
        removeServer cl PersistOk n g =
          (Inr (),
           (case client st of None \<Rightarrow> [] | Some c \<Rightarrow> [ClientClose c]) @ [ConfigRemoveServer n],
           g\<lparr>servers := AList.delete n (servers g),
             configManager := (configManager g)\<lparr>persisted := (persisted (configManager g))(n := None)\<rparr>\<rparr>)
        \<and> removeServer cl (PersistFails msg) n g =
          (Inl msg,
           (case client st of None \<Rightarrow> [] | Some c \<Rightarrow> [ClientClose c]) @ [ConfigRemoveServer n],
           g\<lparr>servers := AList.delete n (servers g)\<rparr>)
        \<and> map_of (AList.delete n (servers g)) n = None)"
  using removeServer_absent [of g n cl p]
    removeServer_closed [of g n st cl PersistOk]
    removeServer_closed [of g n st cl "PersistFails msg"]
  by (simp add: closing_def AList.delete_conv')

theorem removeServer_order_witness:
  "removeServer CloseOk PersistOk ''ghost'' fs_ready =
      (Inl (mk_error SERVER_NOT_FOUND (''Server '' @ quoted ''ghost'' @ '' not found'')), [], fs_ready)
   \<and> removeServer CloseOk PersistOk ''fs'' fs_ready =
      (Inr (), [ClientClose 7, ConfigRemoveServer ''fs''], empty_gateway)
   \<and> removeServer CloseOk (PersistFails ''EACCES'') ''fs'' fs_ready =
      (Inl ''EACCES'', [ClientClose 7, ConfigRemoveServer ''fs''],
       empty_gateway\<lparr>configManager := \<lparr>persisted = [''fs'' \<mapsto> fs_config]\<rparr>\<rparr>)"
  using removeServer_order [where g = fs_ready and n = "''ghost''" and cl = CloseOk and p = PersistOk]
    removeServer_order [where g = fs_ready and n = "''fs''" and cl = CloseOk and msg = "''EACCES''"
      and st = "(initial_state fs_config)\<lparr>client := Some 7, tools := [read_tool],
             status := Connected, lastConnected := Some 1000\<rparr>"]
  by (simp add: fs_ready_def empty_gateway_def initial_state_def)

text \<open>
  C6. \<^verbatim>\<open>getServerInfo\<close> returns its list and leaves the gateway as it was. The list
  holds the snapshots of the entries of the map, in the order of the map: the names are
  the keys, and the snapshot at each position holds the name, the package, the status, the
  number of tools, the last error and the printed date of the last connect of the handle
  at that position. After any operations on a map with distinct keys, each registered
  name has exactly one snapshot and any other name has none. The order is the order of
  registration: \<^verbatim>\<open>addServer\<close> of a new name puts its snapshot at the end of the list,
  unless persisting failed, which leaves the list as it was; \<^verbatim>\<open>addServer\<close> of a
  registered name leaves the list as it was; \<^verbatim>\<open>removeServer\<close> that got past the close
  takes the snapshot of its name out and leaves the others in place; \<^verbatim>\<open>callTool\<close>
  leaves the list as it was.
\<close>

theorem getServerInfo_snapshots:
  "getServerInfo_call f g = (getServerInfo f g, g)
   \<and> map info_name (getServerInfo f g) = map fst (servers g)
   \<and> (\<forall>i < length (servers g).
         getServerInfo f g ! i =
           \<lparr>info_name = fst (servers g ! i),
            info_package = package (config (snd (servers g ! i))),
            info_status = status (snd (servers g ! i)),
            toolCount = length (tools (snd (servers g ! i))),
            info_error = lastError (snd (servers g ! i)),
            info_lastConnected = map_option f (lastConnected (snd (servers g ! i)))\<rparr>)
   \<and> (distinct (map fst (servers g)) \<longrightarrow>
        (\<forall>k. length (filter (\<lambda>s. info_name s = k) (getServerInfo f (run ops g))) =
               (if map_of (servers (run ops g)) k = None then 0 else 1)))
   \<and> (map_of (servers g) n = None \<longrightarrow>
        getServerInfo f (snd (snd (addServer PersistOk (ConnectOk c ts now) n pkg as g))) =
          getServerInfo f g @
            [\<lparr>info_name = n, info_package = pkg, info_status = Connected, toolCount = length ts,
              info_error = None, info_lastConnected = Some (f now)\<rparr>]
        \<and> getServerInfo f (snd (snd (addServer PersistOk (ConnectFails msg) n pkg as g))) =
          getServerInfo f g @
            [\<lparr>info_name = n, info_package = pkg, info_status = Error, toolCount = 0,
              info_error = Some msg, info_lastConnected = None\<rparr>]
        \<and> getServerInfo f (snd (snd (addServer (PersistFails msg) ans n pkg as g))) = getServerInfo f g)
   \<and> (map_of (servers g) n = Some st \<longrightarrow>
        getServerInfo f (snd (snd (addServer p ans n pkg as g))) = getServerInfo f g
        \<and> (client st = None \<or> cl = CloseOk \<longrightarrow>
             getServerInfo f (snd (snd (removeServer cl p n g))) =
               filter (\<lambda>s. info_name s \<noteq> n) (getServerInfo f g)))
   \<and> getServerInfo f (snd (snd (callTool r sn tn a g))) = getServerInfo f g"
proof -
  have pure: "getServerInfo_call f g = (getServerInfo f g, g)"
    by (simp add: getServerInfo_call_eq getServerInfo_map)
  have names: "map info_name (getServerInfo f g) = map fst (servers g)"
    by (rule names_getServerInfo)
  have fields: "\<forall>i < length (servers g).
         getServerInfo f g ! i =
           \<lparr>info_name = fst (servers g ! i),
            info_package = package (config (snd (servers g ! i))),
            info_status = status (snd (servers g ! i)),
            toolCount = length (tools (snd (servers g ! i))),
            info_error = lastError (snd (servers g ! i)),
            info_lastConnected = map_option f (lastConnected (snd (servers g ! i)))\<rparr>"
    by (simp add: getServerInfo_map server_info_def)
  have once: "distinct (map fst (servers g)) \<longrightarrow>
        (\<forall>k. length (filter (\<lambda>s. info_name s = k) (getServerInfo f (run ops g))) =
               (if map_of (servers (run ops g)) k = None then 0 else 1))"
    by (simp add: filter_getServerInfo count_key distinct_run)
  have added: "map_of (servers g) n = None \<longrightarrow>
        getServerInfo f (snd (snd (addServer PersistOk (ConnectOk c ts now) n pkg as g))) =
          getServerInfo f g @
            [\<lparr>info_name = n, info_package = pkg, info_status = Connected, toolCount = length ts,
              info_error = None, info_lastConnected = Some (f now)\<rparr>]
        \<and> getServerInfo f (snd (snd (addServer PersistOk (ConnectFails msg) n pkg as g))) =
          getServerInfo f g @
            [\<lparr>info_name = n, info_package = pkg, info_status = Error, toolCount = 0,
              info_error = Some msg, info_lastConnected = None\<rparr>]
        \<and> getServerInfo f (snd (snd (addServer (PersistFails msg) ans n pkg as g))) = getServerInfo f g"
    by (simp add: getServerInfo_added addServer_persist_fails)
       (simp add: server_info_def final_state_def connected_state_def error_state_def)
  have kept: "map_of (servers g) n = Some st \<longrightarrow>
        getServerInfo f (snd (snd (addServer p ans n pkg as g))) = getServerInfo f g
        \<and> (client st = None \<or> cl = CloseOk \<longrightarrow>
             getServerInfo f (snd (snd (removeServer cl p n g))) =
               filter (\<lambda>s. info_name s \<noteq> n) (getServerInfo f g))"
    using addServer_exists [of g n st p ans pkg as] getServerInfo_removed [of g n st cl f p]
    by auto
  have called: "getServerInfo f (snd (snd (callTool r sn tn a g))) = getServerInfo f g"
    by (simp add: callTool_state)
  show ?thesis by (intro conjI pure names fields once added kept called)
qed

theorem getServerInfo_snapshots_witness:
  "getServerInfo nat_to_string empty_gateway = []
   \<and> getServerInfo nat_to_string fs_ready = [fs_snapshot ''1000'']
   \<and> getServerInfo nat_to_string fs_and_x = [fs_snapshot ''1000'', x_snapshot]
   \<and> getServerInfo nat_to_string x_only = [x_snapshot]
   \<and> getServerInfo nat_to_string x_then_fs = [x_snapshot, fs_snapshot ''2000'']
   \<and> length (filter (\<lambda>s. info_name s = ''x'') (getServerInfo nat_to_string fs_and_x)) = 1
   \<and> length (filter (\<lambda>s. info_name s = ''ghost'') (getServerInfo nat_to_string fs_and_x)) = 0
   \<and> getServerInfo_call nat_to_string fs_and_x = ([fs_snapshot ''1000'', x_snapshot], fs_and_x)"
proof -
  have l0: "getServerInfo nat_to_string empty_gateway = []"
    using getServerInfo_snapshots [of nat_to_string empty_gateway]
    by (simp add: empty_gateway_def)
  have f0: "map_of (servers empty_gateway) ''fs'' = None" by (simp add: empty_gateway_def)
  have l1: "getServerInfo nat_to_string fs_ready = [fs_snapshot ''1000'']"
    using getServerInfo_snapshots [of nat_to_string empty_gateway "[]" "''fs''" 7 "[read_tool]" 1000
        "''server-filesystem''" "Some [''/tmp'']"] f0
    by (simp add: fs_ready_example l0 fs_snapshot_def digit_def)
  have f1: "map_of (servers fs_ready) ''x'' = None" by (simp add: fs_ready_def empty_gateway_def)
  have l2: "getServerInfo nat_to_string fs_and_x = [fs_snapshot ''1000'', x_snapshot]"
    using getServerInfo_snapshots [where f = nat_to_string and g = fs_ready and n = "''x''"
        and msg = "''spawn ENOENT''" and pkg = "''pkg''" and as = None] f1
    by (simp add: fs_and_x_example l1 x_snapshot_def)
  have f2: "map_of (servers fs_and_x) ''fs'' =
      Some ((initial_state fs_config)\<lparr>client := Some 7, tools := [read_tool],
                      status := Connected, lastConnected := Some 1000\<rparr>)"
    by (simp add: fs_and_x_def empty_gateway_def)
  have l3: "getServerInfo nat_to_string x_only = [x_snapshot]"
    using getServerInfo_snapshots [where f = nat_to_string and g = fs_and_x and n = "''fs''"
        and cl = CloseOk and p = PersistOk
        and st = "(initial_state fs_config)\<lparr>client := Some 7, tools := [read_tool],
                      status := Connected, lastConnected := Some 1000\<rparr>"] f2
    by (simp add: x_only_example l2 x_snapshot_def fs_snapshot_def)
  have f3: "map_of (servers x_only) ''fs'' = None" by (simp add: x_only_def empty_gateway_def)
  have l4: "getServerInfo nat_to_string x_then_fs = [x_snapshot, fs_snapshot ''2000'']"
    using getServerInfo_snapshots [where f = nat_to_string and g = x_only and n = "''fs''"
        and c = 8 and ts = "[read_tool]" and now = 2000 and pkg = "''server-filesystem''"
        and as = "Some [''/tmp'']"] f3
    by (simp add: x_then_fs_example l3 fs_snapshot_def digit_def)
  have d: "distinct (map fst (servers fs_and_x))" by (simp add: fs_and_x_def empty_gateway_def)
  have k: "map_of (servers fs_and_x) ''x'' \<noteq> None" "map_of (servers fs_and_x) ''ghost'' = None"
    by (simp_all add: fs_and_x_def empty_gateway_def)
  from getServerInfo_snapshots [where f = nat_to_string and g = fs_and_x and ops = "[]"] d
  have once: "\<And>k. length (filter (\<lambda>s. info_name s = k) (getServerInfo nat_to_string fs_and_x)) =
               (if map_of (servers fs_and_x) k = None then 0 else 1)"
    and pure: "getServerInfo_call nat_to_string fs_and_x = (getServerInfo nat_to_string fs_and_x, fs_and_x)"
    by simp_all
  have c1: "length (filter (\<lambda>s. info_name s = ''x'') (getServerInfo nat_to_string fs_and_x)) = 1"
    using once [of "''x''"] k by simp
  have c0: "length (filter (\<lambda>s. info_name s = ''ghost'') (getServerInfo nat_to_string fs_and_x)) = 0"
    using once [of "''ghost''"] k by simp
  have p: "getServerInfo_call nat_to_string fs_and_x = ([fs_snapshot ''1000'', x_snapshot], fs_and_x)"
    using pure l2 by simp
  show ?thesis by (intro conjI l0 l1 l2 l3 l4 c1 c0 p)
qed

text \<open>
  C7. The channel of the connected backend \<^verbatim>\<open>fs\<close> dies: four sends in a row fail in
  the transport. Each call starts the timer of the call and nothing else, no reconnect is
  scheduled, and afterwards the gateway is what it was: the handle is still
  \<^verbatim>\<open>connected\<close>, with \<^verbatim>\<open>reconnectAttempts\<close> 0.
\<close>

theorem channel_death_no_reconnect:
  "callTool (SendSettlesFirst (Rejects TransportFailure ''EPIPE'')) ''fs'' ''read'' ''{}'' fs_ready =
     (Inl ''TOOL_EXECUTION_ERROR: EPIPE'', [SetTimeout 30000, ClientCallTool 7 ''read'' ''{}''], fs_ready)
   \<and> run [channel_death, channel_death, channel_death, channel_death] fs_ready = fs_ready
   \<and> map_option status (map_of (servers fs_ready) ''fs'') = Some Connected
   \<and> map_option reconnectAttempts (map_of (servers fs_ready) ''fs'') = Some 0"
proof -
  have t: "effective_timeout fs_ready = 30000"
    by (simp add: effective_timeout_def fs_ready_def empty_gateway_def default_settings_def)
  have call: "callTool (SendSettlesFirst (Rejects TransportFailure ''EPIPE'')) ''fs'' ''read'' ''{}'' fs_ready =
     (Inl ''TOOL_EXECUTION_ERROR: EPIPE'', [SetTimeout 30000, ClientCallTool 7 ''read'' ''{}''], fs_ready)"
    using callTool_ready [OF fs_ready_lookup [of "Some 30000"], where c = 7 and tn = "''read''" and a = "''{}''"
        and r = "SendSettlesFirst (Rejects TransportFailure ''EPIPE'')"]
      not_includes_EPIPE
    by (simp add: fs_ready_default callTool_catch_cases initial_state_def t)
  have same: "run [channel_death, channel_death, channel_death, channel_death] fs_ready = fs_ready"
    by (simp add: channel_death_def callTool_state)
  have st: "map_option status (map_of (servers fs_ready) ''fs'') = Some Connected"
    by (simp add: fs_ready_def empty_gateway_def initial_state_def)
  have ra: "map_option reconnectAttempts (map_of (servers fs_ready) ''fs'') = Some 0"
    by (simp add: fs_ready_def empty_gateway_def initial_state_def)
  show ?thesis by (intro conjI call same st ra)
qed

text \<open>
  C8. After an \<^verbatim>\<open>addServer\<close> of \<^verbatim>\<open>x\<close> that succeeded and a
  \<^verbatim>\<open>removeServer\<close> of \<^verbatim>\<open>x\<close> that succeeded, \<^verbatim>\<open>getServerInfo\<close> has no entry for
  \<^verbatim>\<open>x\<close>, the name is neither in the map nor in the persisted configuration, the map is
  what it was before the add, and the same \<^verbatim>\<open>addServer\<close> succeeds again with the events
  and the resulting gateway of the first one.
\<close>

theorem add_remove_round_trip:
  assumes add: "addServer p1 ans x pkg as g = (Inr (), evs1, g1)"
    and rem: "removeServer cl p2 x g1 = (Inr (), evs2, g2)"
  shows "x \<notin> set (map info_name (getServerInfo toISOString g2))
    \<and> map_of (servers g2) x = None
    \<and> persisted (configManager g2) x = None
    \<and> servers g2 = servers g
    \<and> addServer p1 ans x pkg as g2 = (Inr (), evs1, g1)"
proof -
  from addServer_success [OF add] obtain c ts now
    where fresh: "map_of (servers g) x = None" and p1: "p1 = PersistOk"
      and ans: "ans = ConnectOk c ts now" by blast
  let ?sc = "\<lparr>name = x, package = pkg, args = as\<rparr>"
  let ?st = "final_state ans ?sc"
  from add fresh p1 addServer_persisted [of g x ans pkg as]
  have g1: "g1 = g\<lparr>configManager := (configManager g)\<lparr>persisted :=
             (persisted (configManager g))(x \<mapsto> ?sc)\<rparr>,
        servers := AList.update x ?st (servers g)\<rparr>"
    and evs1: "evs1 = [ConfigAddServer x ?sc, Spawn ''npx'' (spawn_args ?sc)]"
    by simp_all
  have lk: "map_of (servers g1) x = Some ?st" by (simp add: g1 AList.update_conv')
  have cst: "client ?st = Some c" by (simp add: ans final_state_def connected_state_def)
  have cl: "cl = CloseOk"
    using rem removeServer_close_fails [OF lk cst, of _ p2] by (cases cl) auto
  have p2: "p2 = PersistOk"
    using rem removeServer_closed [OF lk, of cl p2] cl by (cases p2) auto
  from rem removeServer_closed [OF lk, of cl p2] cl p2
  have g2: "g2 = g1\<lparr>servers := AList.delete x (servers g1),
             configManager := (configManager g1)\<lparr>persisted := (persisted (configManager g1))(x := None)\<rparr>\<rparr>"
    by simp
  have notin: "x \<notin> fst ` set (servers g)"
    using fresh by (simp add: map_of_eq_None_iff)
  have sv: "servers g2 = servers g"
    using notin by (simp add: g2 g1 AList.delete_update_same)
  have pz: "persisted (configManager g2) x = None" by (simp add: g2)
  have listed: "x \<notin> set (map info_name (getServerInfo toISOString g2))"
    using notin by (simp add: getServerInfo_map server_info_def comp_def sv)
  have fresh2: "map_of (servers g2) x = None" using fresh sv by simp
  have "addServer PersistOk ans x pkg as g2 = (Inr (), evs1, g1)"
    using addServer_persisted [OF fresh2, of ans pkg as] notin
    by (simp add: ans evs1) (simp add: g2 g1 AList.delete_update_same ans)
  with listed fresh2 pz sv p1 show ?thesis by simp
qed

theorem add_remove_round_trip_witness:
  "''fs'' \<notin> set (map info_name (getServerInfo nat_to_string empty_gateway))
   \<and> addServer PersistOk (ConnectOk 7 [read_tool] 1000) ''fs'' ''server-filesystem'' (Some [''/tmp''])
        empty_gateway =
      (Inr (), [ConfigAddServer ''fs'' fs_config, Spawn ''npx'' [''server-filesystem'', ''/tmp'']], fs_ready)"
  using add_remove_round_trip [OF fs_add_example fs_remove_example, of nat_to_string]
  by simp

text \<open>
  C9. Against a connected backend, the error of a send that rejects is classified by its
  message alone, whatever the kind of the failure: a message that contains
  \<^verbatim>\<open>TOOL_TIMEOUT\<close> is rethrown unchanged, any other message is surfaced as
  \<^verbatim>\<open>TOOL_EXECUTION_ERROR\<close> followed by the message, and then never as
  \<^verbatim>\<open>SERVER_DISCONNECTED\<close>. The error of the timer goes through the same test and is
  rethrown unchanged.
\<close>

theorem callTool_error_classification:
  assumes "map_of (servers g) sn = Some st" and "status st = Connected" and "client st = Some c"
  shows "fst (callTool (SendSettlesFirst (Rejects k msg)) sn tn a g) =
           Inl (if (\<exists>p q. msg = p @ ''TOOL_TIMEOUT'' @ q) then msg else ''TOOL_EXECUTION_ERROR: '' @ msg)
    \<and> fst (callTool TimeoutFiresFirst sn tn a g) = Inl (timeout_error (effective_timeout g))
    \<and> ((\<nexists>p q. msg = p @ ''TOOL_TIMEOUT'' @ q) \<longrightarrow>
         (\<forall>txt. fst (callTool (SendSettlesFirst (Rejects k msg)) sn tn a g) \<noteq>
                  Inl (mk_error SERVER_DISCONNECTED txt)))"
proof -
  have rej: "fst (callTool (SendSettlesFirst (Rejects k msg)) sn tn a g) =
      Inl (if (\<exists>p q. msg = p @ ''TOOL_TIMEOUT'' @ q) then msg else ''TOOL_EXECUTION_ERROR: '' @ msg)"
    using callTool_ready [OF assms, of "SendSettlesFirst (Rejects k msg)" tn a]
    by (simp add: callTool_catch_cases)
  have tmo: "fst (callTool TimeoutFiresFirst sn tn a g) = Inl (timeout_error (effective_timeout g))"
    using callTool_ready [OF assms, of TimeoutFiresFirst tn a]
    by (simp add: callTool_catch_timeout)
  have "(\<nexists>p q. msg = p @ ''TOOL_TIMEOUT'' @ q) \<longrightarrow>
         (\<forall>txt. fst (callTool (SendSettlesFirst (Rejects k msg)) sn tn a g) \<noteq>
                  Inl (mk_error SERVER_DISCONNECTED txt))"
    by (simp add: rej mk_error_def)
  with rej tmo show ?thesis by blast
qed

theorem callTool_error_classification_witness:
  "fst (callTool (SendSettlesFirst (Rejects TransportFailure ''socket hang up'')) ''fs'' ''read'' ''{}'' fs_ready) =
      Inl ''TOOL_EXECUTION_ERROR: socket hang up''
   \<and> fst (callTool (SendSettlesFirst (Rejects ApplicationFailure ''backend says TOOL_TIMEOUT'')) ''fs'' ''read'' ''{}'' fs_ready) =
      Inl ''backend says TOOL_TIMEOUT''"
proof -
  have no: "\<not> (\<exists>p q. ''socket hang up'' = p @ ''TOOL_TIMEOUT'' @ q)"
    using str_includes_iff [of "''socket hang up''" "''TOOL_TIMEOUT''"] by simp
  have yes: "\<exists>p q. ''backend says TOOL_TIMEOUT'' = p @ ''TOOL_TIMEOUT'' @ q"
    using str_includes_iff [of "''backend says TOOL_TIMEOUT''" "''TOOL_TIMEOUT''"] by simp
  show ?thesis
    using callTool_error_classification [OF fs_ready_lookup [of "Some 30000"], where c = 7 and tn = "''read''"
        and a = "''{}''" and msg = "''socket hang up''" and k = TransportFailure]
      callTool_error_classification [OF fs_ready_lookup [of "Some 30000"], where c = 7 and tn = "''read''"
        and a = "''{}''" and msg = "''backend says TOOL_TIMEOUT''" and k = ApplicationFailure]
      no yes
    by (simp add: fs_ready_default initial_state_def)
qed

text \<open>
  C10. After an \<^verbatim>\<open>addServer\<close> of a new name whose configuration was persisted and
  whose first connect failed, the name is in the map with status \<^verbatim>\<open>error\<close>, its spec
  is in the persisted configuration, \<^verbatim>\<open>getServerInfo\<close> shows its snapshot, and after any
  operations none of which removes the name, every \<^verbatim>\<open>addServer\<close> of the name fails
  with \<^verbatim>\<open>SERVER_ALREADY_EXISTS\<close> and changes nothing.
\<close>

theorem failed_add_stays_registered:
  assumes fresh: "map_of (servers g) n = None"
    and add: "addServer PersistOk (ConnectFails msg) n pkg as g = (res, evs, g')"
    and ops: "list_all (\<lambda>x. \<not> removes n x) ops"
  shows "res = Inl (mk_error SERVER_ADD_FAILED msg)
    \<and> map_option status (map_of (servers g') n) = Some Error
    \<and> persisted (configManager g') n = Some \<lparr>name = n, package = pkg, args = as\<rparr>
    \<and> \<lparr>info_name = n, info_package = pkg, info_status = Error, toolCount = 0,
        info_error = Some msg, info_lastConnected = None\<rparr> \<in> set (getServerInfo toISOString g')
    \<and> addServer p ans n pkg' as' (run ops g') =
        (Inl (mk_error SERVER_ALREADY_EXISTS (''Server '' @ quoted n @ '' already exists'')), [], run ops g')"
proof -
  let ?sc = "\<lparr>name = n, package = pkg, args = as\<rparr>"
  from add addServer_persisted [OF fresh, of "ConnectFails msg" pkg as]
  have res: "res = Inl (mk_error SERVER_ADD_FAILED msg)"
    and g': "g' = g\<lparr>configManager := (configManager g)\<lparr>persisted :=
             (persisted (configManager g))(n \<mapsto> ?sc)\<rparr>,
        servers := AList.update n (error_state ?sc msg) (servers g)\<rparr>"
    by (simp_all add: final_state_def)
  have lk: "map_of (servers g') n = Some (error_state ?sc msg)"
    by (simp add: g' AList.update_conv')
  then have st: "map_option status (map_of (servers g') n) = Some Error"
    by (simp add: error_state_def)
  have cfg: "persisted (configManager g') n = Some ?sc" by (simp add: g')
  have "(n, error_state ?sc msg) \<in> set (servers g')"
    using lk by (rule map_of_SomeD)
  then have "server_info toISOString (n, error_state ?sc msg) \<in> set (getServerInfo toISOString g')"
    by (simp add: getServerInfo_map)
  then have listed: "\<lparr>info_name = n, info_package = pkg, info_status = Error, toolCount = 0,
        info_error = Some msg, info_lastConnected = None\<rparr> \<in> set (getServerInfo toISOString g')"
    by (simp add: server_info_def error_state_def)
  from lk have "map_of (servers g') n \<noteq> None" by simp
  then have "map_of (servers (run ops g')) n \<noteq> None"
    using ops by (rule registered_run)
  then obtain st' where "map_of (servers (run ops g')) n = Some st'" by blast
  then have "addServer p ans n pkg' as' (run ops g') =
        (Inl (mk_error SERVER_ALREADY_EXISTS (''Server '' @ quoted n @ '' already exists'')), [], run ops g')"
    by (rule addServer_exists)
  with res st cfg listed show ?thesis by simp
qed

theorem failed_add_stays_registered_witness:
  "map_of (servers empty_gateway) ''x'' = None
   \<and> list_all (\<lambda>x. \<not> removes ''x'' x) later_ops
   \<and> map_option status (map_of (servers x_failed) ''x'') = Some Error
   \<and> persisted (configManager x_failed) ''x'' = Some x_config
   \<and> addServer PersistOk (ConnectOk 9 [] 3000) ''x'' ''pkg'' None (run later_ops x_failed) =
       (Inl (mk_error SERVER_ALREADY_EXISTS (''Server '' @ quoted ''x'' @ '' already exists'')), [],
        run later_ops x_failed)"
proof -
  have fresh: "map_of (servers empty_gateway) ''x'' = None" by (simp add: empty_gateway_def)
  have ops: "list_all (\<lambda>x. \<not> removes ''x'' x) later_ops" by (simp add: later_ops_def)
  show ?thesis
    using failed_add_stays_registered [OF fresh x_add_example ops,
        of nat_to_string PersistOk "ConnectOk 9 [] 3000" "''pkg''" None] fresh ops
    by (simp add: x_config_def)
qed

end
